theory Spec2Isabelle
  imports Complex_Main "HOL-Library.Word"
begin

section \<open>JavaScript values used by the two commands\<close>

text \<open>
  The repository holds two Node commands: \<^verbatim>\<open>scripts/vote.js\<close> (cast a vote) and
  \<^verbatim>\<open>check-proposals.js\<close> (list proposals). Both are one \<^verbatim>\<open>async function main\<close>
  that reads from the chain through ethers, decides, and prints. The model keeps the
  decisions and the values they are taken on; the wording of the console lines is left out.

  A JavaScript string is a sequence of 16-bit code units, modelled as a list of natural
  numbers. \<open>str\<close> turns an ASCII literal into such a list.
\<close>

type_synonym jsstring = "nat list"

definition str :: "string \<Rightarrow> jsstring" where
  "str s = map of_char s"

text \<open>
  Numbers are IEEE doubles. Every number the two commands compute with is an integer, so a
  number is modelled by the integer it denotes, and \<open>toDouble\<close> is the rounding that
  \<^verbatim>\<open>Number(bigint)\<close>, \<^verbatim>\<open>+\<close> and \<^verbatim>\<open>-\<close> apply to the exact result: the nearest double,
  ties to the even significand. Integers up to \<open>2 ^ 53\<close> in magnitude are doubles already;
  above, a double keeps the 53 leading bits. (The inputs are at most 256 bits wide, far
  below the range where a double overflows to Infinity.)
\<close>

function bitlen :: "int \<Rightarrow> nat" where
  "bitlen n = (if n \<le> 0 then 0 else Suc (bitlen (n div 2)))"
  by pat_completeness auto
termination
  by (relation "measure nat") auto

declare bitlen.simps [simp del]

definition toDouble :: "int \<Rightarrow> int" where
  "toDouble x =
     (let a = \<bar>x\<bar> in
      if a \<le> 2 ^ 53 then x
      else
        let e = bitlen a - 53;
            q = a div 2 ^ e;
            r = a mod 2 ^ e;
            q' = (if 2 ^ e < 2 * r \<or> (2 * r = 2 ^ e \<and> odd q) then q + 1 else q)
        in sgn x * (q' * 2 ^ e))"

text \<open>\<^verbatim>\<open>Number(x)\<close> for a bigint \<open>x\<close> that ethers decoded from a \<^verbatim>\<open>uintN\<close>.\<close>

definition Number :: "'a::len word \<Rightarrow> int" where
  "Number w = toDouble (uint w)"

section \<open>The chain client\<close>

text \<open>
  The tuple \<^verbatim>\<open>proposals(uint256)\<close> returns, with the field names of the ABI string of
  both files.
\<close>

record proposal =
  proposer :: "256 word"
  eta :: "256 word"
  startBlock :: "256 word"
  endBlock :: "256 word"
  forVotes :: "256 word"
  againstVotes :: "256 word"
  abstainVotes :: "256 word"
  canceled :: bool
  executed :: bool

text \<open>The vote transaction the command sends: \<^verbatim>\<open>castVote\<close> or \<^verbatim>\<open>castVoteWithReason\<close>.\<close>

datatype 'id tx =
    CastVote 'id int
  | CastVoteWithReason 'id int jsstring

text \<open>
  Every call into ethers is an input of the model: the value it resolves to, or \<open>None\<close>
  when it throws. \<open>'id\<close> is what the command passes as proposal id (the loop counter in
  the listing, the raw argument string in the vote command). \<open>getBlockNumber\<close> is asked
  several times in one run, so it is indexed by the number of earlier calls. \<open>Wallet\<close> is
  \<^verbatim>\<open>new ethers.Wallet(privateKey, provider)\<close>, giving the wallet's address; \<open>send\<close> tells
  whether the vote transaction is sent and confirmed without a throw.
\<close>

record 'id chain =
  proposalCount :: "256 word option"
  proposals :: "'id \<Rightarrow> proposal option"
  state :: "'id \<Rightarrow> 8 word option"
  hasVoted :: "'id \<Rightarrow> jsstring \<Rightarrow> bool option"
  balanceOf :: "jsstring \<Rightarrow> 256 word option"
  delegates :: "jsstring \<Rightarrow> jsstring option"
  getBlockNumber :: "nat \<Rightarrow> int option"
  Wallet :: "jsstring \<Rightarrow> jsstring option"
  send :: "'id tx \<Rightarrow> bool"

section \<open>Phase labels\<close>

text \<open>
  \<^verbatim>\<open>const STATES = {0: 'Pending', ..., 7: 'Executed'}\<close> is a module-level object, the
  same in both files. It is the only binding outside \<^verbatim>\<open>main\<close> that the classification
  reads, so the module's store is a record with this one field.
\<close>

record globals =
  STATES :: "(int \<times> string) list"

definition module_globals :: globals where
  "module_globals = \<lparr>STATES =
     [(0, ''Pending''), (1, ''Active''), (2, ''Canceled''), (3, ''Defeated''),
      (4, ''Succeeded''), (5, ''Queued''), (6, ''Expired''), (7, ''Executed'')]\<rparr>"

text \<open>
  \<^verbatim>\<open>STATES[stateNum] || 'Unknown'\<close>: a missing key gives \<^verbatim>\<open>undefined\<close>, and \<^verbatim>\<open>||\<close>
  replaces \<^verbatim>\<open>undefined\<close> and the empty string by its right operand.
\<close>

definition stateName :: "globals \<Rightarrow> int \<Rightarrow> string" where
  "stateName g stateNum =
     (case map_of (STATES g) stateNum of
        None \<Rightarrow> ''Unknown''
      | Some s \<Rightarrow> if s = [] then ''Unknown'' else s)"

text \<open>
  \<^verbatim>\<open>Number(prop.endBlock) - currentBlock\<close>, computed only under
  \<^verbatim>\<open>if (prop.stateNum === 1)\<close> in the listing, and after the \<^verbatim>\<open>stateNum !== 1\<close> exit in
  the vote command.
\<close>

definition blocksDiff :: "256 word \<Rightarrow> int \<Rightarrow> int" where
  "blocksDiff endBlk currentBlock = toDouble (Number endBlk - currentBlock)"

definition blocksLeft :: "int \<Rightarrow> 256 word \<Rightarrow> int \<Rightarrow> int option" where
  "blocksLeft stateNum endBlk currentBlock =
     (if stateNum = 1 then Some (blocksDiff endBlk currentBlock) else None)"

text \<open>
  The proposal classifier of the specification is these two steps of \<^verbatim>\<open>main\<close> taken
  together: from the snapshot, the code \<^verbatim>\<open>state(i)\<close> returned and a block number, the
  label and the blocks left. It is written over the module's store and returns the store
  it leaves behind; the source assigns to no module-level binding.
\<close>

definition classify ::
  "proposal \<Rightarrow> 8 word \<Rightarrow> int \<Rightarrow> globals \<Rightarrow> (string \<times> int option) \<times> globals" where
  "classify p st currentBlock g =
     (let stateNum = Number st;
          name = stateName g stateNum
      in ((name, blocksLeft stateNum (endBlock p) currentBlock), g))"

section \<open>The listing command\<close>

text \<open>
  The object \<^verbatim>\<open>proposals.push({id: i, state: stateName, stateNum, forVotes, ...})\<close>
  stores for a proposal; the loop variable that reads it back is \<^verbatim>\<open>prop\<close>.
\<close>

record entry =
  prop_id :: int
  prop_state :: string
  prop_stateNum :: int
  prop_forVotes :: "256 word"
  prop_againstVotes :: "256 word"
  prop_abstainVotes :: "256 word"
  prop_startBlock :: "256 word"
  prop_endBlock :: "256 word"
  prop_executed :: bool
  prop_canceled :: bool

definition mkEntry :: "int \<Rightarrow> proposal \<Rightarrow> 8 word \<Rightarrow> entry" where
  "mkEntry i p st =
     (let stateNum = Number st;
          name = stateName module_globals stateNum
      in \<lparr>prop_id = i, prop_state = name, prop_stateNum = stateNum,
          prop_forVotes = forVotes p, prop_againstVotes = againstVotes p,
          prop_abstainVotes = abstainVotes p, prop_startBlock = startBlock p,
          prop_endBlock = endBlock p, prop_executed = executed p,
          prop_canceled = canceled p\<rparr>)"

text \<open>
  The body of the \<^verbatim>\<open>for\<close> loop over the proposal indices, a \<^verbatim>\<open>try\<close>/\<^verbatim>\<open>catch\<close>:
  when \<^verbatim>\<open>Promise.all([contract.proposals(i), contract.state(i)])\<close> rejects, the
  \<^verbatim>\<open>catch\<close> block is \<^verbatim>\<open>continue\<close>; a proposal that is not Active is passed over
  unless \<^verbatim>\<open>--all\<close> was given; otherwise the entry is pushed. \<open>acc\<close> is the array
  \<^verbatim>\<open>proposals\<close> before the step, the result is the array after it.
\<close>

definition fetch_step :: "bool \<Rightarrow> int chain \<Rightarrow> int \<Rightarrow> entry list \<Rightarrow> entry list" where
  "fetch_step showAll c i acc =
     (case (proposals c i, state c i) of
        (Some p, Some st) \<Rightarrow>
          if \<not> showAll \<and> Number st \<noteq> 1 then acc else acc @ [mkEntry i p st]
      | _ \<Rightarrow> acc)"

text \<open>
  \<^verbatim>\<open>for (let i = 1; i <= Number(count); i++)\<close>, with \<open>n\<close> for \<^verbatim>\<open>Number(count)\<close>.
  \<^verbatim>\<open>i++\<close> rounds like every addition of doubles, so from \<open>2 ^ 53\<close> on it no longer
  advances and the loop does not end: \<open>None\<close> is that outcome.
\<close>

partial_function (option) collect ::
  "bool \<Rightarrow> int chain \<Rightarrow> int \<Rightarrow> int \<Rightarrow> entry list \<Rightarrow> entry list option" where
  "collect showAll c n i acc =
     (if i \<le> n then collect showAll c n (toDouble (i + 1)) (fetch_step showAll c i acc)
      else Some acc)"

text \<open>
  The display loop: one \<^verbatim>\<open>provider.getBlockNumber()\<close> for each stored proposal, and the
  blocks left for the Active ones. A throw there reaches the outer \<^verbatim>\<open>catch\<close>, which
  exits with code 1: \<open>None\<close>. \<open>k\<close> counts the calls made so far.
\<close>

fun display :: "int chain \<Rightarrow> nat \<Rightarrow> entry list \<Rightarrow> (entry \<times> int option) list option" where
  "display c k [] = Some []"
| "display c k (prop # rest) =
     (case getBlockNumber c k of
        None \<Rightarrow> None
      | Some currentBlock \<Rightarrow>
          (case display c (Suc k) rest of
             None \<Rightarrow> None
           | Some shown \<Rightarrow>
               Some ((prop, blocksLeft (prop_stateNum prop) (prop_endBlock prop) currentBlock)
                     # shown)))"

text \<open>The three counts of the summary: \<^verbatim>\<open>proposals.filter(p => p.stateNum === k).length\<close>.\<close>

record summary =
  active :: nat
  succeeded :: nat
  executed_count :: nat

definition summarise :: "entry list \<Rightarrow> summary" where
  "summarise ps =
     \<lparr>active = length (filter (\<lambda>p. prop_stateNum p = 1) ps),
      succeeded = length (filter (\<lambda>p. prop_stateNum p = 4) ps),
      executed_count = length (filter (\<lambda>p. prop_stateNum p = 7) ps)\<rparr>"

text \<open>
  What a run of the listing ends with. The first three are a normal return of
  \<^verbatim>\<open>main\<close> (exit code 0); \<open>ListFailed\<close> is the outer \<^verbatim>\<open>catch\<close> with
  \<^verbatim>\<open>process.exit(1)\<close>.
\<close>

datatype listing =
    NoProposalsYet
  | NoneFound
  | Listed "(entry \<times> int option) list" summary
  | ListFailed

text \<open>
  \<^verbatim>\<open>main\<close> of the listing, from \<^verbatim>\<open>contract.proposalCount()\<close> on. (The governance
  parameters read before it are printed only, and each of their reads has its own
  \<^verbatim>\<open>.catch(() => 0n)\<close>.) The outer \<open>None\<close> is a run that never leaves the first loop.
\<close>

definition check_proposals_main :: "bool \<Rightarrow> int chain \<Rightarrow> listing option" where
  "check_proposals_main showAll c =
     (case proposalCount c of
        None \<Rightarrow> Some ListFailed
      | Some count \<Rightarrow>
          if count = 0 then Some NoProposalsYet
          else
            (case collect showAll c (Number count) 1 [] of
               None \<Rightarrow> None
             | Some ps \<Rightarrow>
                 if length ps = 0 then Some NoneFound
                 else
                   (case display c 0 ps of
                      None \<Rightarrow> Some ListFailed
                    | Some shown \<Rightarrow> Some (Listed shown (summarise ps)))))"

text \<open>
  Two readings of a finished run: the proposals it displayed, in the order displayed, and
  the summary it printed (none when it returned before the summary).
\<close>

definition listed_entries :: "listing \<Rightarrow> entry list" where
  "listed_entries r = (case r of Listed shown sm \<Rightarrow> map fst shown | _ \<Rightarrow> [])"

definition listed_summary :: "listing \<Rightarrow> summary option" where
  "listed_summary r = (case r of Listed shown sm \<Rightarrow> Some sm | _ \<Rightarrow> None)"

section \<open>The vote command\<close>

text \<open>
  \<^verbatim>\<open>parseInt(string)\<close> with no radix, after ECMAScript: skip leading white space, take
  one sign, take a \<^verbatim>\<open>0x\<close>/\<^verbatim>\<open>0X\<close> prefix as radix 16 and radix 10 otherwise, read the
  longest run of digits of that radix, and ignore whatever follows. \<open>None\<close> is \<^verbatim>\<open>NaN\<close>
  (no digit was read). The value is the exact integer read; the double it is rounded to is
  0, 1 or 2 exactly when that integer is, and \<^verbatim>\<open>-0\<close> counts as 0 for \<^verbatim>\<open>includes\<close>.
\<close>

definition isWhiteSpace :: "nat \<Rightarrow> bool" where
  "isWhiteSpace c \<longleftrightarrow>
     c \<in> set [9, 10, 11, 12, 13, 32, 160, 5760, 8232, 8233, 8239, 8287, 12288, 65279]
     \<or> (8192 \<le> c \<and> c \<le> 8202)"

definition digitVal :: "nat \<Rightarrow> nat" where
  "digitVal c =
     (if 48 \<le> c \<and> c \<le> 57 then c - 48
      else if 97 \<le> c \<and> c \<le> 122 then c - 87
      else if 65 \<le> c \<and> c \<le> 90 then c - 55
      else 36)"

definition parseInt :: "jsstring \<Rightarrow> int option" where
  "parseInt inputString =
     (let S = dropWhile isWhiteSpace inputString;
          (sign, S1) = (case S of
                          c # t \<Rightarrow> if c = 45 then (- 1, t) else if c = 43 then (1, t) else (1, S)
                        | [] \<Rightarrow> (1, S));
          (R, S2) = (case S1 of
                       c # x # t \<Rightarrow> if c = 48 \<and> (x = 120 \<or> x = 88) then (16, t) else (10, S1)
                     | _ \<Rightarrow> (10, S1));
          Z = takeWhile (\<lambda>c. digitVal c < R) S2
      in if Z = [] then None
         else Some (sign * int (foldl (\<lambda>v c. v * R + digitVal c) 0 Z)))"

text \<open>
  \<^verbatim>\<open>ethers.ZeroAddress\<close>, and \<^verbatim>\<open>toLowerCase\<close> on the letters an address can hold
  (ethers returns \<^verbatim>\<open>0x\<close> and 40 hexadecimal digits).
\<close>

definition ZeroAddress :: jsstring where
  "ZeroAddress = str ''0x0000000000000000000000000000000000000000''"

definition toLowerCase :: "jsstring \<Rightarrow> jsstring" where
  "toLowerCase s = map (\<lambda>c. if 65 \<le> c \<and> c \<le> 90 then c + 32 else c) s"

text \<open>
  How the command ends. \<open>Exit e\<close> is one of its \<^verbatim>\<open>process.exit(1)\<close>, named after the
  error kinds of the specification; \<open>ChainError\<close> is the \<^verbatim>\<open>catch\<close> block reached from a
  read that threw. \<open>Uncaught\<close> is a throw before the \<^verbatim>\<open>try\<close>, which
  \<^verbatim>\<open>main().catch(console.error)\<close> prints. \<open>Submit t ok\<close>: the transaction \<open>t\<close> was handed
  to the governor contract, and \<open>ok\<close> tells whether sending and waiting went through
  (otherwise the \<^verbatim>\<open>catch\<close> block exits with 1).
\<close>

datatype error =
    Usage
  | InvalidSupportValue
  | MissingPrivateKey
  | NoVotingPower
  | ProposalNotActive
  | AlreadyVoted
  | ChainError

datatype outcome =
    Exit error
  | Uncaught
  | Submit "jsstring tx" bool

datatype advisory =
    NotDelegated
  | DelegatedTo jsstring

text \<open>
  A run of the vote command: the delegation warning it printed, the phase label it
  printed, the blocks left it printed, and how it ended.
\<close>

record vote_run =
  advisory :: "advisory option"
  shown_state :: "string option"
  blocks_left :: "int option"
  outcome :: outcome

definition halt :: "outcome \<Rightarrow> vote_run" where
  "halt out = \<lparr>advisory = None, shown_state = None, blocks_left = None, outcome = out\<rparr>"

text \<open>
  The write call: \<^verbatim>\<open>castVoteWithReason\<close> when \<^verbatim>\<open>reason\<close> is a non-empty string,
  \<^verbatim>\<open>castVote\<close> otherwise.
\<close>

definition vote_tx :: "jsstring \<Rightarrow> int \<Rightarrow> jsstring \<Rightarrow> jsstring tx" where
  "vote_tx proposalId supportNum reason =
     (if reason \<noteq> [] then CastVoteWithReason proposalId supportNum reason
      else CastVote proposalId supportNum)"

text \<open>The delegation check, which only prints a warning.\<close>

definition delegation_warning :: "jsstring \<Rightarrow> jsstring \<Rightarrow> advisory option" where
  "delegation_warning delegate address =
     (if delegate = ZeroAddress then Some NotDelegated
      else if toLowerCase delegate \<noteq> toLowerCase address then Some (DelegatedTo delegate)
      else None)"

text \<open>The body of the \<^verbatim>\<open>try\<close> block of \<^verbatim>\<open>main\<close> in \<^verbatim>\<open>vote.js\<close>.\<close>

definition try_block ::
  "jsstring chain \<Rightarrow> jsstring \<Rightarrow> int \<Rightarrow> jsstring \<Rightarrow> jsstring \<Rightarrow> vote_run" where
  "try_block c proposalId supportNum reason address =
     (case balanceOf c address of
        None \<Rightarrow> halt (Exit ChainError)
      | Some balance \<Rightarrow>
          if balance = 0 then halt (Exit NoVotingPower)
          else
            (case delegates c address of
               None \<Rightarrow> halt (Exit ChainError)
             | Some delegate \<Rightarrow>
                 let warned = delegation_warning delegate address in
                 (case (state c proposalId, proposals c proposalId) of
                    (Some st, Some proposal) \<Rightarrow>
                      let stateNum = Number st;
                          name = stateName module_globals stateNum;
                          run = \<lparr>advisory = warned, shown_state = Some name,
                                 blocks_left = None, outcome = Exit ChainError\<rparr>
                      in
                      if stateNum \<noteq> 1 then run\<lparr>outcome := Exit ProposalNotActive\<rparr>
                      else
                        (case hasVoted c proposalId address of
                           None \<Rightarrow> run
                         | Some voted \<Rightarrow>
                             if voted then run\<lparr>outcome := Exit AlreadyVoted\<rparr>
                             else
                               (case getBlockNumber c 0 of
                                  None \<Rightarrow> run
                                | Some currentBlock \<Rightarrow>
                                    let t = vote_tx proposalId supportNum reason
                                    in run\<lparr>blocks_left :=
                                             Some (blocksDiff (endBlock proposal) currentBlock),
                                           outcome := Submit t (send c t)\<rparr>))
                  | _ \<Rightarrow> (halt (Exit ChainError))\<lparr>advisory := warned\<rparr>)))"

text \<open>\<^verbatim>\<open>process.argv[4] || ''\<close>, from the arguments after the support code.\<close>

definition reasonArg :: "jsstring list \<Rightarrow> jsstring" where
  "reasonArg rest = (case rest of r # _ \<Rightarrow> r | [] \<Rightarrow> [])"

text \<open>
  \<^verbatim>\<open>main\<close> of \<^verbatim>\<open>vote.js\<close>. \<open>args\<close> is \<^verbatim>\<open>process.argv\<close> from index 2 on, \<open>PRIVATE_KEY\<close>
  the environment variable (\<open>None\<close> when unset).
\<close>

definition vote_main :: "jsstring list \<Rightarrow> jsstring option \<Rightarrow> jsstring chain \<Rightarrow> vote_run" where
  "vote_main args PRIVATE_KEY c =
     (case args of
        proposalId # support # rest \<Rightarrow>
          if proposalId = [] then halt (Exit Usage)
          else
            let reason = reasonArg rest in
            (case parseInt support of
               None \<Rightarrow> halt (Exit InvalidSupportValue)
             | Some supportNum \<Rightarrow>
                 if supportNum \<notin> set [0, 1, 2] then halt (Exit InvalidSupportValue)
                 else
                   (case PRIVATE_KEY of
                      None \<Rightarrow> halt (Exit MissingPrivateKey)
                    | Some privateKey \<Rightarrow>
                        if privateKey = [] then halt (Exit MissingPrivateKey)
                        else
                          (case Wallet c privateKey of
                             None \<Rightarrow> halt Uncaught
                           | Some address \<Rightarrow>
                               try_block c proposalId supportNum reason address)))
      | _ \<Rightarrow> halt (Exit Usage))"

text \<open>
  The four rules of the vote eligibility checker as the specification words them
  (section 4.4), in its order, on the support value read from the command line, the token
  balance, the phase label and the has-voted flag. The result is the first rule that
  fails, or the support code to submit.
\<close>

definition eligibility_rules :: "int option \<Rightarrow> 256 word \<Rightarrow> string \<Rightarrow> bool \<Rightarrow> error + int" where
  "eligibility_rules support balance phaseLabel voted =
     (case support of
        None \<Rightarrow> Inl InvalidSupportValue
      | Some n \<Rightarrow>
          if n \<notin> {0, 1, 2} then Inl InvalidSupportValue
          else if balance = 0 then Inl NoVotingPower
          else if phaseLabel \<noteq> ''Active'' then Inl ProposalNotActive
          else if voted then Inl AlreadyVoted
          else Inr n)"

section \<open>The auction evaluator\<close>

text \<open>
  The auction scripts (\<^verbatim>\<open>check-auction.js\<close>, \<^verbatim>\<open>place-bid.js\<close>) are named by
  \<^verbatim>\<open>SKILL.md\<close> but are not among the source files, so the evaluator is taken from
  section 4.1 of the specification.
\<close>

record AuctionSnapshot =
  tokenId :: int
  currentBid :: int
  currentBidder :: jsstring
  startTime :: int
  endTime :: int
  reservePrice :: int
  incrementPct :: int
  extensionWindow :: int
  extensionDuration :: int

datatype AuctionPhase = NotStarted | Active | EndedUnsettled

datatype auction_error = InvalidSnapshot

record AuctionEval =
  phase :: AuctionPhase
  minNextBid :: int
  secondsRemaining :: int
  willExtend :: bool

text \<open>
  Modelled from the spec: the auction evaluator, whose source file is missing. The
  minimum next bid is the reserve price while no bid is placed, and otherwise the current
  bid plus the increment, rounded up in integer arithmetic; a snapshot with
  \<open>endTime < startTime\<close> or a negative amount fails with \<open>InvalidSnapshot\<close>.
\<close>

definition evaluate :: "AuctionSnapshot \<Rightarrow> int \<Rightarrow> auction_error + AuctionEval" where
  "evaluate s now =
     (if endTime s < startTime s \<or> currentBid s < 0 \<or> reservePrice s < 0
      then Inl InvalidSnapshot
      else
        let ph = (if now < startTime s then NotStarted
                  else if endTime s < now then EndedUnsettled
                  else Active);
            remaining = max 0 (endTime s - now)
        in Inr \<lparr>phase = ph,
                minNextBid =
                  (if currentBid s = 0 then reservePrice s
                   else currentBid s + (currentBid s * incrementPct s + 99) div 100),
                secondsRemaining = remaining,
                willExtend = (ph = Active \<and> remaining \<le> extensionWindow s)\<rparr>)"

section \<open>Sample inputs\<close>

text \<open>
  A proposal, a voter address and a chain client on which every read succeeds: three
  proposals, each Active, the voter holding two tokens delegated to themself.
\<close>

definition sample_proposal :: proposal where
  "sample_proposal =
     \<lparr>proposer = 0, eta = 0, startBlock = 100, endBlock = 1000, forVotes = 3,
      againstVotes = 1, abstainVotes = 0, canceled = False, executed = False\<rparr>"

definition voter :: jsstring where
  "voter = str ''0x00000000000000000000000000000000000000aa''"

definition sample_chain :: "'id chain" where
  "sample_chain =
     \<lparr>proposalCount = Some 3,
      proposals = (\<lambda>_. Some sample_proposal),
      state = (\<lambda>_. Some 1),
      hasVoted = (\<lambda>_ _. Some False),
      balanceOf = (\<lambda>_. Some 2),
      delegates = (\<lambda>_. Some voter),
      getBlockNumber = (\<lambda>_. Some 900),
      Wallet = (\<lambda>_. Some voter),
      send = (\<lambda>_. True)\<rparr>"

text \<open>The same client when the chain holds one proposal and reports the phase code 8.\<close>

definition code8_chain :: "int chain" where
  "code8_chain = sample_chain\<lparr>proposalCount := Some 1, state := \<lambda>_. Some 8\<rparr>"

text \<open>
  A client for a voter who fails three rules at once: no tokens, a Defeated proposal, and a
  vote already cast.
\<close>

definition failing_chain :: "jsstring chain" where
  "failing_chain =
     sample_chain\<lparr>balanceOf := \<lambda>_. Some 0, state := \<lambda>_. Some 3,
                  hasVoted := \<lambda>_ _. Some True\<rparr>"

text \<open>The sample client for a voter without tokens, and for one who never delegated.\<close>

definition broke_chain :: "jsstring chain" where
  "broke_chain = sample_chain\<lparr>balanceOf := \<lambda>_. Some 0\<rparr>"

definition undelegated_chain :: "jsstring chain" where
  "undelegated_chain = sample_chain\<lparr>delegates := \<lambda>_. Some ZeroAddress\<rparr>"

text \<open>The sample client when the read of the second proposal's state throws.\<close>

definition flaky_chain :: "int chain" where
  "flaky_chain = sample_chain\<lparr>state := \<lambda>i. if i = 2 then None else Some 1\<rparr>"

section \<open>Numbers and labels\<close>

lemma toDouble_small: "\<bar>x\<bar> \<le> 2 ^ 53 \<Longrightarrow> toDouble x = x"
  by (simp add: toDouble_def Let_def)

lemma Number_small: "uint w \<le> 2 ^ 53 \<Longrightarrow> Number w = uint w"
  by (simp add: Number_def toDouble_small)

lemma Number_uint8: "Number (st :: 8 word) = uint st"
proof -
  have "uint st < 2 ^ 8" using uint_lt2p [of st] by simp
  then have "uint st \<le> 2 ^ 53" by simp
  then show ?thesis by (rule Number_small)
qed

lemma Number_eq_1: "Number (st :: 8 word) = 1 \<longleftrightarrow> st = 1"
  by (simp add: Number_uint8 word_uint_eq_iff)

lemma stateName_module:
  "stateName module_globals n =
     (if n = 0 then ''Pending'' else if n = 1 then ''Active'' else if n = 2 then ''Canceled''
      else if n = 3 then ''Defeated'' else if n = 4 then ''Succeeded''
      else if n = 5 then ''Queued'' else if n = 6 then ''Expired''
      else if n = 7 then ''Executed'' else ''Unknown'')"
  by (simp add: stateName_def module_globals_def)

lemma stateName_Active: "stateName module_globals n = ''Active'' \<longleftrightarrow> n = 1"
  by (simp add: stateName_module)

lemma blocksDiff_exact:
  assumes "uint e \<le> 2 ^ 53" and "0 \<le> cur" and "cur \<le> 2 ^ 53"
  shows "blocksDiff e cur = uint e - cur"
proof -
  have "0 \<le> uint e" by simp
  with assms have "\<bar>uint e - cur\<bar> \<le> 2 ^ 53" by linarith
  then show ?thesis using assms(1) by (simp add: blocksDiff_def Number_small toDouble_small)
qed

section \<open>The proposal classifier\<close>

text \<open>
  C6: the classifier labels the codes 0 to 7 with the names at these positions of the
  enumeration, Pending, Active, Canceled, Defeated, Succeeded, Queued, Expired, Executed;
  and the label is a matter of the code alone: whatever the vote tallies of the snapshot
  and whatever the block number, the same code gets the same label, so no quorum or
  threshold enters it.
\<close>

theorem phase_labels:
  "map (\<lambda>st. fst (fst (classify p st cur module_globals))) [0, 1, 2, 3, 4, 5, 6, 7]
     = [''Pending'', ''Active'', ''Canceled'', ''Defeated'', ''Succeeded'', ''Queued'',
        ''Expired'', ''Executed'']
   \<and> fst (fst (classify p st cur module_globals))
       = fst (fst (classify p' st cur' module_globals))"
  by (simp add: classify_def Let_def stateName_module Number_uint8)

text \<open>
  C7: the classifier is a pure function of its inputs. Run from any module store, it
  leaves the store as it found it, and a second run on the same snapshot, code and block
  number, started from the store the first one left, gives the same label and the same
  blocks left.
\<close>

theorem classifier_pure:
  "snd (classify p st cur g) = g
   \<and> fst (classify p st cur (snd (classify p st cur g))) = fst (classify p st cur g)"
  by (simp add: classify_def Let_def)

text \<open>
  C2, as the specification states it, asks for \<open>max 0 (endBlock - currentBlock)\<close>. The
  source subtracts and does not clamp: an Active proposal whose end block 100 lies behind
  the current block 150 has \<open>-50\<close> blocks left, where the claim has 0.
\<close>

theorem blocks_left_negative:
  "snd (fst (classify (sample_proposal\<lparr>endBlock := 100\<rparr>) 1 150 module_globals)) = Some (- 50)
   \<and> Some (- 50) \<noteq> Some (max 0 (uint (100 :: 256 word) - 150))"
  by (simp add: classify_def Let_def blocksLeft_def blocksDiff_def Number_def toDouble_def
        sample_proposal_def)

text \<open>
  C2, amended: for an end block and a current block within the integers a double holds
  exactly (up to \<open>2 ^ 53\<close>), the blocks left are the plain difference
  \<open>endBlock - currentBlock\<close>, negative once the current block has passed the end block;
  they are computed exactly when the phase code is 1 (Active) and are absent for every
  other code.
\<close>

theorem blocks_left_difference:
  assumes "uint (endBlock p) \<le> 2 ^ 53" and "0 \<le> cur" and "cur \<le> 2 ^ 53"
  shows "snd (fst (classify p st cur g))
           = (if st = 1 then Some (uint (endBlock p) - cur) else None)"
  using blocksDiff_exact [OF assms]
  by (simp add: classify_def Let_def blocksLeft_def Number_eq_1)

theorem blocks_left_difference_witness:
  "snd (fst (classify sample_proposal 1 900 module_globals)) = Some 100
   \<and> snd (fst (classify sample_proposal 7 900 module_globals)) = None"
  using blocks_left_difference [of sample_proposal 900 1 module_globals]
    blocks_left_difference [of sample_proposal 900 7 module_globals]
  by (simp add: sample_proposal_def)

text \<open>
  C3, as the specification states it, asks the classifier to fail with UnknownPhase on a
  code outside 0..7. The source has no such failure: \<^verbatim>\<open>STATES[stateNum] || 'Unknown'\<close>
  supplies a label and the run goes on. A listing with \<^verbatim>\<open>--all\<close> of one proposal whose
  code is 8 returns normally and shows the proposal under the label Unknown.
\<close>

theorem unknown_code_listed:
  "check_proposals_main True code8_chain =
     Some (Listed
       [(\<lparr>prop_id = 1, prop_state = ''Unknown'', prop_stateNum = 8, prop_forVotes = 3,
          prop_againstVotes = 1, prop_abstainVotes = 0, prop_startBlock = 100,
          prop_endBlock = 1000, prop_executed = False, prop_canceled = False\<rparr>, None)]
       \<lparr>active = 0, succeeded = 0, executed_count = 0\<rparr>)"
  by (simp add: check_proposals_main_def code8_chain_def sample_chain_def sample_proposal_def
        collect.simps fetch_step_def mkEntry_def stateName_module blocksLeft_def summarise_def
        Number_def toDouble_def Let_def)

text \<open>
  C3, amended: for every code above 7 the classifier does not fail; it gives the label
  Unknown, with no blocks left, and leaves the decision to its caller.
\<close>

theorem unknown_code_label:
  assumes "7 < uint st"
  shows "fst (classify p st cur module_globals) = (''Unknown'', None)"
  using assms by (simp add: classify_def Let_def blocksLeft_def stateName_module Number_uint8)

theorem unknown_code_label_witness:
  "fst (classify sample_proposal 8 900 module_globals) = (''Unknown'', None)"
  using unknown_code_label [of 8 sample_proposal 900] by simp

section \<open>The vote eligibility checker\<close>

lemma vote_main_args:
  assumes "args = proposalId # support # rest" and "proposalId \<noteq> []"
  shows "vote_main args PRIVATE_KEY c =
           (case parseInt support of
              None \<Rightarrow> halt (Exit InvalidSupportValue)
            | Some supportNum \<Rightarrow>
                if supportNum \<notin> {0, 1, 2} then halt (Exit InvalidSupportValue)
                else
                  (case PRIVATE_KEY of
                     None \<Rightarrow> halt (Exit MissingPrivateKey)
                   | Some privateKey \<Rightarrow>
                       if privateKey = [] then halt (Exit MissingPrivateKey)
                       else
                         (case Wallet c privateKey of
                            None \<Rightarrow> halt Uncaught
                          | Some address \<Rightarrow>
                              try_block c proposalId supportNum (reasonArg rest) address)))"
  using assms by (simp add: vote_main_def Let_def split: option.splits)

lemma vote_main_short: "length args < 2 \<Longrightarrow> vote_main args PRIVATE_KEY c = halt (Exit Usage)"
  by (cases args; cases "tl args") (simp_all add: vote_main_def)

lemma try_block_zero_balance:
  "balanceOf c address = Some 0 \<Longrightarrow>
   try_block c proposalId supportNum reason address = halt (Exit NoVotingPower)"
  by (simp add: try_block_def)

lemma try_block_submit:
  assumes "balanceOf c address = Some balance" and "balance \<noteq> 0"
    and "delegates c address = Some delegate"
    and "state c proposalId = Some 1"
    and "proposals c proposalId = Some proposal"
    and "hasVoted c proposalId address = Some False"
    and "getBlockNumber c 0 = Some currentBlock"
  shows "try_block c proposalId supportNum reason address =
           \<lparr>advisory = delegation_warning delegate address, shown_state = Some ''Active'',
            blocks_left = Some (blocksDiff (endBlock proposal) currentBlock),
            outcome = Submit (vote_tx proposalId supportNum reason)
                        (send c (vote_tx proposalId supportNum reason))\<rparr>"
  using assms by (simp add: try_block_def Let_def Number_uint8 stateName_module)

lemma try_block_not_invalid:
  "outcome (try_block c proposalId supportNum reason address) \<noteq> Exit InvalidSupportValue"
  by (simp add: try_block_def Let_def halt_def split: option.splits)

lemma vote_main_submit:
  assumes "args = proposalId # support # rest" and "proposalId \<noteq> []"
    and "parseInt support = Some n" and "n \<in> {0, 1, 2}"
    and "PRIVATE_KEY = Some privateKey" and "privateKey \<noteq> []"
    and "Wallet c privateKey = Some address"
    and "balanceOf c address = Some balance" and "balance \<noteq> 0"
    and "delegates c address = Some delegate"
    and "state c proposalId = Some 1"
    and "proposals c proposalId = Some proposal"
    and "hasVoted c proposalId address = Some False"
    and "getBlockNumber c 0 = Some currentBlock"
  shows "vote_main args PRIVATE_KEY c =
           \<lparr>advisory = delegation_warning delegate address, shown_state = Some ''Active'',
            blocks_left = Some (blocksDiff (endBlock proposal) currentBlock),
            outcome = Submit (vote_tx proposalId n (reasonArg rest))
                        (send c (vote_tx proposalId n (reasonArg rest)))\<rparr>"
proof -
  have "vote_main args PRIVATE_KEY c = try_block c proposalId n (reasonArg rest) address"
    using assms(3-7) by (simp add: vote_main_args [OF assms(1,2)])
  then show ?thesis
    using try_block_submit [OF assms(8-14)] by simp
qed

lemma parse_digit_junk:
  assumes "d \<in> {48, 49, 50}" and "\<not> digitVal c < 10"
    and "\<not> (d = 48 \<and> (c = 120 \<or> c = 88))"
  shows "parseInt (d # c # junk) = Some (int d - 48)"
proof -
  have ws: "\<not> isWhiteSpace d" using assms(1) by (auto simp add: isWhiteSpace_def)
  have sg: "d \<noteq> 45" "d \<noteq> 43" using assms(1) by auto
  have dv: "digitVal d < 10" "int (digitVal d) = int d - 48"
    using assms(1) by (auto simp add: digitVal_def)
  have px: "\<not> (d = 48 \<and> (c = 120 \<or> c = 88))" by (rule assms(3))
  show ?thesis
    unfolding parseInt_def
    by (simp add: ws sg dv px assms(2) del: One_nat_def)
qed

lemma str_Cons: "str (x # xs) \<noteq> []"
  by (simp add: str_def)

lemma parse_1: "parseInt (str ''1'') = Some 1"
  by (simp add: parseInt_def str_def isWhiteSpace_def digitVal_def)

lemma sample_reads:
  "Wallet (sample_chain :: jsstring chain) k = Some voter"
  "balanceOf (sample_chain :: jsstring chain) a = Some 2"
  "delegates (sample_chain :: jsstring chain) a = Some voter"
  "state (sample_chain :: jsstring chain) i = Some 1"
  "proposals (sample_chain :: jsstring chain) i = Some sample_proposal"
  "hasVoted (sample_chain :: jsstring chain) i a = Some False"
  "getBlockNumber (sample_chain :: jsstring chain) j = Some 900"
  "send (sample_chain :: jsstring chain) t = True"
  by (simp_all add: sample_chain_def)

text \<open>
  C1: the vote command applies the four rules in the order of the specification and the
  first one that fails decides the error: an unusable support value gives
  InvalidSupportValue, then a balance of 0 gives NoVotingPower, then a phase other than
  Active gives ProposalNotActive, then a vote already cast gives AlreadyVoted, and only
  when all four pass is the vote handed to the contract. Stated for a run that has its
  two arguments and its key and whose chain reads all succeed, so that the four rules are
  what decides.
\<close>

theorem vote_rules_in_order:
  assumes "args = proposalId # support # rest" and "proposalId \<noteq> []"
    and "PRIVATE_KEY = Some privateKey" and "privateKey \<noteq> []"
    and "Wallet c privateKey = Some address"
    and "balanceOf c address = Some balance"
    and "delegates c address = Some delegate"
    and "state c proposalId = Some st"
    and "proposals c proposalId = Some proposal"
    and "hasVoted c proposalId address = Some voted"
    and "getBlockNumber c 0 = Some currentBlock"
  shows "outcome (vote_main args PRIVATE_KEY c) =
           (case eligibility_rules (parseInt support) balance
                   (stateName module_globals (Number st)) voted of
              Inl e \<Rightarrow> Exit e
            | Inr n \<Rightarrow> Submit (vote_tx proposalId n (reasonArg rest))
                        (send c (vote_tx proposalId n (reasonArg rest))))"
proof (cases "parseInt support")
  case None
  then show ?thesis
    using assms(1,2) by (simp add: vote_main_def eligibility_rules_def halt_def)
next
  case (Some n)
  show ?thesis
  proof (cases "n \<in> {0, 1, 2}")
    case False
    then show ?thesis
      using assms(1,2) Some by (simp add: vote_main_def eligibility_rules_def halt_def)
  next
    case True
    then have main:
      "vote_main args PRIVATE_KEY c = try_block c proposalId n (reasonArg rest) address"
      using assms(1-5) Some by (auto simp add: vote_main_def Let_def)
    have rules: "eligibility_rules (parseInt support) balance
                   (stateName module_globals (Number st)) voted =
                 (if balance = 0 then Inl NoVotingPower
                  else if Number st \<noteq> 1 then Inl ProposalNotActive
                  else if voted then Inl AlreadyVoted else Inr n)"
      using True Some by (auto simp add: eligibility_rules_def stateName_Active)
    show ?thesis
      unfolding main rules
      using assms(6-11)
      by (simp add: try_block_def Let_def halt_def)
  qed
qed

theorem vote_rules_in_order_witness:
  "outcome (vote_main [str ''5'', str ''1''] (Some (str ''k'')) failing_chain) = Exit NoVotingPower"
proof -
  have "outcome (vote_main [str ''5'', str ''1''] (Some (str ''k'')) failing_chain) =
           (case eligibility_rules (parseInt (str ''1'')) 0
                   (stateName module_globals (Number (3 :: 8 word))) True of
              Inl e \<Rightarrow> Exit e
            | Inr n \<Rightarrow> Submit (vote_tx (str ''5'') n (reasonArg []))
                        (send failing_chain (vote_tx (str ''5'') n (reasonArg []))))"
    by (rule vote_rules_in_order [where privateKey = "str ''k''" and address = voter
          and delegate = voter and proposal = sample_proposal and currentBlock = 900])
       (simp_all add: failing_chain_def sample_chain_def str_Cons)
  then show ?thesis
    by (simp add: parse_1 eligibility_rules_def)
qed

text \<open>
  C4, as the specification states it, has a balance of 0 rejected with NoVotingPower
  whatever the support value. The support value is checked first, before any read from
  the chain: with the support argument 7 a voter without tokens is rejected with
  InvalidSupportValue.
\<close>

theorem zero_balance_wrong_support:
  "balanceOf broke_chain voter = Some 0
   \<and> outcome (vote_main [str ''5'', str ''7''] (Some (str ''k'')) broke_chain)
       = Exit InvalidSupportValue
   \<and> outcome (vote_main [str ''5'', str ''7''] (Some (str ''k'')) broke_chain)
       \<noteq> Exit NoVotingPower"
  by (simp add: broke_chain_def sample_chain_def vote_main_def halt_def str_def
        parseInt_def isWhiteSpace_def digitVal_def)

text \<open>
  C4, amended: a voter whose balance reads 0 never gets a vote submitted, whatever the
  arguments, the phase and the has-voted flag; and when the support argument parses to 0,
  1 or 2 the rejection is NoVotingPower, whatever the phase and the has-voted flag.
\<close>

theorem zero_balance_rejected:
  assumes "PRIVATE_KEY = Some privateKey" and "privateKey \<noteq> []"
    and "Wallet c privateKey = Some address"
    and "balanceOf c address = Some 0"
  shows "outcome (vote_main args PRIVATE_KEY c) \<noteq> Submit t ok
       \<and> (args = proposalId # support # rest \<and> proposalId \<noteq> []
              \<and> parseInt support \<in> {Some 0, Some 1, Some 2}
            \<longrightarrow> outcome (vote_main args PRIVATE_KEY c) = Exit NoVotingPower)"
proof (intro conjI impI)
  show "outcome (vote_main args PRIVATE_KEY c) \<noteq> Submit t ok"
  proof (cases "length args < 2")
    case True
    then show ?thesis by (simp add: vote_main_short halt_def)
  next
    case False
    then obtain p s r where a: "args = p # s # r"
      by (cases args; cases "tl args") auto
    show ?thesis
    proof (cases "p = []")
      case True
      then show ?thesis using a by (simp add: vote_main_def halt_def)
    next
      case False
      show ?thesis
        using assms
        by (simp add: vote_main_args [OF a False] try_block_zero_balance halt_def
              split: option.splits)
    qed
  qed
next
  assume h: "args = proposalId # support # rest \<and> proposalId \<noteq> []
              \<and> parseInt support \<in> {Some 0, Some 1, Some 2}"
  then have a: "args = proposalId # support # rest" and b: "proposalId \<noteq> []" by simp_all
  from h obtain n where "parseInt support = Some n" "n \<in> {0, 1, 2}" by auto
  then show "outcome (vote_main args PRIVATE_KEY c) = Exit NoVotingPower"
    using assms by (simp add: vote_main_args [OF a b] try_block_zero_balance halt_def)
qed

theorem zero_balance_rejected_witness:
  "outcome (vote_main [str ''5'', str ''1''] (Some (str ''k'')) broke_chain) = Exit NoVotingPower"
proof -
  have w: "Wallet broke_chain (str ''k'') = Some voter"
    and z: "balanceOf broke_chain voter = Some 0"
    by (simp_all add: broke_chain_def sample_chain_def)
  have "[str ''5'', str ''1''] = str ''5'' # str ''1'' # [] \<and> str ''5'' \<noteq> []
            \<and> parseInt (str ''1'') \<in> {Some 0, Some 1, Some 2}"
    by (simp add: parse_1 str_Cons)
  then show ?thesis
    by (rule zero_balance_rejected [OF refl str_Cons w z, THEN conjunct2, THEN mp])
qed

text \<open>
  C5: a delegation mismatch never makes the checker fail. Whenever the four rules pass,
  the vote is handed to the contract whatever the delegate is: the zero address and a
  delegate other than the voter only set the advisory that goes with the run.
\<close>

theorem delegation_is_advisory:
  assumes "args = proposalId # support # rest" and "proposalId \<noteq> []"
    and "parseInt support = Some n" and "n \<in> {0, 1, 2}"
    and "PRIVATE_KEY = Some privateKey" and "privateKey \<noteq> []"
    and "Wallet c privateKey = Some address"
    and "balanceOf c address = Some balance" and "balance \<noteq> 0"
    and "delegates c address = Some delegate"
    and "state c proposalId = Some 1"
    and "proposals c proposalId = Some proposal"
    and "hasVoted c proposalId address = Some False"
    and "getBlockNumber c 0 = Some currentBlock"
  shows "outcome (vote_main args PRIVATE_KEY c)
           = Submit (vote_tx proposalId n (reasonArg rest))
               (send c (vote_tx proposalId n (reasonArg rest)))
       \<and> advisory (vote_main args PRIVATE_KEY c)
           = (if delegate = ZeroAddress then Some NotDelegated
              else if toLowerCase delegate \<noteq> toLowerCase address
                   then Some (DelegatedTo delegate)
              else None)"
  by (simp add: vote_main_submit [OF assms] delegation_warning_def)

theorem delegation_is_advisory_witness:
  "outcome (vote_main [str ''5'', str ''1''] (Some (str ''k'')) undelegated_chain)
     = Submit (CastVote (str ''5'') 1) True
   \<and> advisory (vote_main [str ''5'', str ''1''] (Some (str ''k'')) undelegated_chain)
     = Some NotDelegated"
proof -
  have r: "Wallet undelegated_chain (str ''k'') = Some voter"
      "balanceOf undelegated_chain voter = Some 2" "(2 :: 256 word) \<noteq> 0"
      "delegates undelegated_chain voter = Some ZeroAddress"
      "state undelegated_chain (str ''5'') = Some 1"
      "proposals undelegated_chain (str ''5'') = Some sample_proposal"
      "hasVoted undelegated_chain (str ''5'') voter = Some False"
      "getBlockNumber undelegated_chain 0 = Some 900"
    by (simp_all add: undelegated_chain_def sample_chain_def)
  have n: "(1 :: int) \<in> {0, 1, 2}" by simp
  show ?thesis
    using delegation_is_advisory [OF refl str_Cons parse_1 n refl str_Cons r]
    by (simp add: vote_tx_def reasonArg_def undelegated_chain_def sample_chain_def)
qed

text \<open>
  C9: the support argument is refused with InvalidSupportValue exactly when
  \<^verbatim>\<open>parseInt\<close> of the raw string is not 0, 1 or 2. So \<^verbatim>\<open>"1.9"\<close> and \<^verbatim>\<open>"2x"\<close> are
  read as 1 and 2, as is every string that starts with one of the digits 0, 1, 2 followed
  by a character that is no decimal digit (an \<^verbatim>\<open>x\<close> after \<^verbatim>\<open>0\<close> apart, which starts a
  hexadecimal number); and when the other rules pass, the vote is cast with the integer
  read.
\<close>

theorem support_by_parseInt:
  assumes "args = proposalId # support # rest" and "proposalId \<noteq> []"
  shows "(outcome (vote_main args PRIVATE_KEY c) = Exit InvalidSupportValue
            \<longleftrightarrow> parseInt support \<notin> {Some 0, Some 1, Some 2})
       \<and> parseInt (str ''1.9'') = Some 1 \<and> parseInt (str ''2x'') = Some 2
       \<and> (d \<in> {48, 49, 50} \<and> \<not> digitVal ch < 10 \<and> \<not> (d = 48 \<and> (ch = 120 \<or> ch = 88))
            \<longrightarrow> parseInt (d # ch # junk) = Some (int d - 48))
       \<and> (parseInt support = Some n \<and> n \<in> {0, 1, 2}
              \<and> PRIVATE_KEY = Some privateKey \<and> privateKey \<noteq> []
              \<and> Wallet c privateKey = Some address
              \<and> balanceOf c address = Some balance \<and> balance \<noteq> 0
              \<and> delegates c address = Some delegate
              \<and> state c proposalId = Some 1
              \<and> proposals c proposalId = Some proposal
              \<and> hasVoted c proposalId address = Some False
              \<and> getBlockNumber c 0 = Some currentBlock
            \<longrightarrow> outcome (vote_main args PRIVATE_KEY c)
                  = Submit (vote_tx proposalId n (reasonArg rest))
                      (send c (vote_tx proposalId n (reasonArg rest))))"
proof (intro conjI impI)
  show "outcome (vote_main args PRIVATE_KEY c) = Exit InvalidSupportValue
            \<longleftrightarrow> parseInt support \<notin> {Some 0, Some 1, Some 2}"
  proof (cases "parseInt support")
    case None
    then show ?thesis by (simp add: vote_main_args [OF assms] halt_def)
  next
    case (Some m)
    show ?thesis
    proof (cases "m \<in> {0, 1, 2}")
      case False
      then show ?thesis using Some by (simp add: vote_main_args [OF assms] halt_def)
    next
      case True
      then have "parseInt support \<in> {Some 0, Some 1, Some 2}" using Some by simp
      moreover have "outcome (vote_main args PRIVATE_KEY c) \<noteq> Exit InvalidSupportValue"
        using True Some
        by (simp add: vote_main_args [OF assms] try_block_not_invalid halt_def
              split: option.splits)
      ultimately show ?thesis by simp
    qed
  qed
next
  show "parseInt (str ''1.9'') = Some 1"
    by (simp add: parseInt_def str_def isWhiteSpace_def digitVal_def)
next
  show "parseInt (str ''2x'') = Some 2"
    by (simp add: parseInt_def str_def isWhiteSpace_def digitVal_def)
next
  assume "d \<in> {48, 49, 50} \<and> \<not> digitVal ch < 10 \<and> \<not> (d = 48 \<and> (ch = 120 \<or> ch = 88))"
  then show "parseInt (d # ch # junk) = Some (int d - 48)"
    by (simp add: parse_digit_junk)
next
  assume h: "parseInt support = Some n \<and> n \<in> {0, 1, 2}
              \<and> PRIVATE_KEY = Some privateKey \<and> privateKey \<noteq> []
              \<and> Wallet c privateKey = Some address
              \<and> balanceOf c address = Some balance \<and> balance \<noteq> 0
              \<and> delegates c address = Some delegate
              \<and> state c proposalId = Some 1
              \<and> proposals c proposalId = Some proposal
              \<and> hasVoted c proposalId address = Some False
              \<and> getBlockNumber c 0 = Some currentBlock"
  then have hs: "parseInt support = Some n" "n \<in> {0, 1, 2}"
      "PRIVATE_KEY = Some privateKey" "privateKey \<noteq> []"
      "Wallet c privateKey = Some address"
      "balanceOf c address = Some balance" "balance \<noteq> 0"
      "delegates c address = Some delegate"
      "state c proposalId = Some 1"
      "proposals c proposalId = Some proposal"
      "hasVoted c proposalId address = Some False"
      "getBlockNumber c 0 = Some currentBlock"
    by simp_all
  show "outcome (vote_main args PRIVATE_KEY c)
                  = Submit (vote_tx proposalId n (reasonArg rest))
                      (send c (vote_tx proposalId n (reasonArg rest)))"
    by (simp add: vote_main_submit [OF assms hs])
qed

theorem support_by_parseInt_witness:
  "outcome (vote_main [str ''5'', str ''1.9''] (Some (str ''k'')) sample_chain)
     = Submit (CastVote (str ''5'') 1) True
   \<and> outcome (vote_main [str ''5'', str ''2x'', str ''why''] (Some (str ''k'')) sample_chain)
     = Submit (CastVoteWithReason (str ''5'') 2 (str ''why'')) True"
proof -
  note t1 = support_by_parseInt [where privateKey = "str ''k''" and address = voter
      and balance = 2 and delegate = voter and proposal = sample_proposal
      and currentBlock = 900, OF refl str_Cons, THEN conjunct2]
  have a: "parseInt (str ''1.9'') = Some 1"
    by (rule t1 [THEN conjunct1])
  have b: "parseInt (str ''2x'') = Some 2"
    by (rule t1 [THEN conjunct2, THEN conjunct1])
  note sub = t1 [THEN conjunct2, THEN conjunct2, THEN conjunct2, THEN mp]
  have one: "outcome (vote_main [str ''5'', str ''1.9''] (Some (str ''k'')) sample_chain)
      = Submit (vote_tx (str ''5'') 1 (reasonArg []))
          (send sample_chain (vote_tx (str ''5'') 1 (reasonArg [])))"
    by (rule sub) (simp add: a sample_reads str_Cons)
  have two:
    "outcome (vote_main [str ''5'', str ''2x'', str ''why''] (Some (str ''k'')) sample_chain)
      = Submit (vote_tx (str ''5'') 2 (reasonArg [str ''why'']))
          (send sample_chain (vote_tx (str ''5'') 2 (reasonArg [str ''why''])))"
    by (rule sub) (simp add: b sample_reads str_Cons)
  show ?thesis
    unfolding one two
    by (simp add: vote_tx_def reasonArg_def sample_reads str_Cons)
qed

section \<open>The auction evaluator's minimum bid\<close>

lemma ceil_div_100: "(x + 99) div 100 = \<lceil>real_of_int x / 100\<rceil>" for x :: int
proof -
  define q r where "q = x div 100" and "r = x mod 100"
  have x: "x = q * 100 + r" by (simp add: q_def r_def)
  have r: "0 \<le> r" "r < 100" by (simp_all add: r_def)
  have "\<lceil>real_of_int x / real_of_int 100\<rceil> = - ((- x) div 100)"
    by (rule ceiling_divide_eq_div)
  also have "\<dots> = (if r = 0 then q else q + 1)"
    by (simp add: zdiv_zminus1_eq_if q_def r_def)
  also have "\<dots> = (x + 99) div 100"
  proof (cases "r = 0")
    case True
    then show ?thesis by (simp add: x)
  next
    case False
    with r have "1 \<le> r" by simp
    then have "(r + 99) div 100 = 1" using r by simp
    moreover have "(x + 99) div 100 = q + (r + 99) div 100"
      by (simp add: x add.assoc)
    ultimately show ?thesis using False by simp
  qed
  finally show ?thesis by simp
qed

text \<open>
  C8: for every snapshot the evaluator accepts, the minimum next bid is the reserve price
  when no bid is placed, whatever the increment percentage, and otherwise the current bid
  plus the ceiling of \<open>currentBid * incrementPct / 100\<close>; the integer arithmetic of the
  evaluator agrees with the ceiling of the exact quotient.
\<close>

theorem min_next_bid:
  assumes "startTime s \<le> endTime s" and "0 \<le> currentBid s" and "0 \<le> reservePrice s"
  shows "\<exists>out. evaluate s now = Inr out \<and>
           minNextBid out =
             (if currentBid s = 0 then reservePrice s
              else currentBid s + \<lceil>real_of_int (currentBid s * incrementPct s) / 100\<rceil>)"
proof -
  have inv: "\<not> (endTime s < startTime s \<or> currentBid s < 0 \<or> reservePrice s < 0)"
    using assms by simp
  have c: "(currentBid s * incrementPct s + 99) div 100
             = \<lceil>real_of_int (currentBid s * incrementPct s) / 100\<rceil>"
    by (rule ceil_div_100)
  show ?thesis
    unfolding evaluate_def Let_def
    by (simp only: inv if_False c sum.inject AuctionEval.simps simp_thms ex_simps)
qed

theorem min_next_bid_witness:
  "\<exists>out. evaluate \<lparr>tokenId = 7, currentBid = 1001, currentBidder = [], startTime = 0,
              endTime = 86400, reservePrice = 800000000000000, incrementPct = 10,
              extensionWindow = 900, extensionDuration = 600\<rparr> 100 = Inr out
         \<and> minNextBid out = 1102"
proof -
  have "\<lceil>real_of_int (1001 * 10) / 100\<rceil> = (101 :: int)"
    by (simp add: ceiling_eq_iff)
  then show ?thesis
    using min_next_bid [of "\<lparr>tokenId = 7, currentBid = 1001, currentBidder = [], startTime = 0,
              endTime = 86400, reservePrice = 800000000000000, incrementPct = 10,
              extensionWindow = 900, extensionDuration = 600\<rparr>" 100]
    by simp
qed

section \<open>The listing loop\<close>

lemma collect_upto:
  assumes "n < 2 ^ 53" and "1 \<le> i"
  shows "collect showAll c n i acc
           = Some (foldl (\<lambda>a j. fetch_step showAll c j a) acc [i..n])"
  using assms(2)
proof (induction "nat (n + 1 - i)" arbitrary: i acc)
  case 0
  then have "\<not> i \<le> n" by simp
  then show ?case by (simp add: collect.simps)
next
  case (Suc k)
  then have le: "i \<le> n" by simp
  with assms(1) Suc.prems have "\<bar>i + 1\<bar> \<le> 2 ^ 53" by simp
  then have step: "toDouble (i + 1) = i + 1" by (rule toDouble_small)
  have k: "k = nat (n + 1 - (i + 1))" using Suc.hyps(2) by simp
  have next_ok: "1 \<le> i + 1" using Suc.prems by simp
  have "collect showAll c n i acc
          = collect showAll c n (i + 1) (fetch_step showAll c i acc)"
    using le by (subst collect.simps) (simp add: step)
  also have "\<dots> = Some (foldl (\<lambda>a j. fetch_step showAll c j a)
                        (fetch_step showAll c i acc) [i + 1..n])"
    by (rule Suc.hyps(1) [OF k next_ok])
  also have "\<dots> = Some (foldl (\<lambda>a j. fetch_step showAll c j a) acc [i..n])"
    using le by (simp add: upto_rec1 [of i n])
  finally show ?case .
qed

lemma fetch_step_append: "fetch_step showAll c j acc = acc @ fetch_step showAll c j []"
  by (simp add: fetch_step_def split: option.splits)

lemma fetch_step_id:
  "map prop_id (fetch_step showAll c j []) = (if fetch_step showAll c j [] \<noteq> [] then [j] else [])"
  by (simp add: fetch_step_def mkEntry_def Let_def split: option.splits)

lemma fetch_step_throw:
  "proposals c i = None \<or> state c i = None \<Longrightarrow> fetch_step showAll c i [] = []"
  by (auto simp add: fetch_step_def split: option.splits)

lemma foldl_fetch_ids:
  "map prop_id (foldl (\<lambda>a j. fetch_step showAll c j a) acc js)
     = map prop_id acc @ filter (\<lambda>j. fetch_step showAll c j [] \<noteq> []) js"
proof (induction js arbitrary: acc)
  case Nil
  then show ?case by simp
next
  case (Cons j js)
  have "map prop_id (fetch_step showAll c j acc)
          = map prop_id acc @ (if fetch_step showAll c j [] \<noteq> [] then [j] else [])"
    by (subst fetch_step_append) (simp add: fetch_step_id)
  then show ?case by (simp add: Cons.IH)
qed

lemma display_ok:
  assumes "\<forall>k. getBlockNumber c k \<noteq> None"
  shows "\<exists>shown. display c k ps = Some shown \<and> map fst shown = ps"
proof (induction ps arbitrary: k)
  case Nil
  then show ?case by simp
next
  case (Cons p ps)
  from assms have "getBlockNumber c k \<noteq> None" by (rule spec)
  then obtain cur where cur: "getBlockNumber c k = Some cur" by auto
  from Cons.IH [of "Suc k"] obtain shown where "display c (Suc k) ps = Some shown" "map fst shown = ps"
    by blast
  then show ?case by (simp add: cur)
qed

text \<open>
  C10: in the listing, an index whose fetch throws (the snapshot read or the state read)
  is passed over in silence: it is not among the displayed proposals, the proposals
  displayed are exactly the other indices from 1 to the count that the filter lets
  through, the summary counts are taken over the displayed proposals only, and the
  command returns normally. Stated for a proposal count below \<open>2 ^ 53\<close> and block number
  reads that succeed.
\<close>

theorem failed_fetch_skipped:
  assumes "proposalCount c = Some count" and "uint count < 2 ^ 53"
    and "\<forall>k. getBlockNumber c k \<noteq> None"
    and "proposals c i = None \<or> state c i = None"
  shows "\<exists>r. check_proposals_main showAll c = Some r \<and> r \<noteq> ListFailed
           \<and> i \<notin> prop_id ` set (listed_entries r)
           \<and> map prop_id (listed_entries r)
               = filter (\<lambda>j. fetch_step showAll c j [] \<noteq> []) [1..uint count]
           \<and> listed_summary r
               = (if listed_entries r = [] then None
                  else Some (summarise (listed_entries r)))"
proof -
  let ?ps = "foldl (\<lambda>a j. fetch_step showAll c j a) [] [1..uint count]"
  have n: "Number count = uint count"
    using assms(2) by (simp add: Number_small)
  have coll: "collect showAll c (Number count) 1 [] = Some ?ps"
    unfolding n by (rule collect_upto [OF assms(2)]) simp
  have ids: "map prop_id ?ps = filter (\<lambda>j. fetch_step showAll c j [] \<noteq> []) [1..uint count]"
    by (simp add: foldl_fetch_ids)
  have skip: "i \<notin> prop_id ` set ?ps"
  proof -
    have "i \<notin> set (map prop_id ?ps)"
      unfolding ids using fetch_step_throw [OF assms(4)] by simp
    then show ?thesis by simp
  qed
  from display_ok [OF assms(3)] obtain shown
    where shown: "display c 0 ?ps = Some shown" "map fst shown = ?ps"
    by blast
  show ?thesis
  proof (cases "count = 0")
    case True
    then have "check_proposals_main showAll c = Some NoProposalsYet"
      using assms(1) by (simp add: check_proposals_main_def)
    then show ?thesis
      using True by (simp add: listed_entries_def listed_summary_def)
  next
    case False
    show ?thesis
    proof (cases "?ps = []")
      case True
      then have "check_proposals_main showAll c = Some NoneFound"
        using assms(1) False coll by (simp add: check_proposals_main_def)
      then show ?thesis
        using ids True by (simp add: listed_entries_def listed_summary_def)
    next
      case ne: False
      let ?r = "Listed shown (summarise ?ps)"
      have run: "check_proposals_main showAll c = Some ?r"
        using assms(1) False coll shown(1) ne by (simp add: check_proposals_main_def)
      have ent: "listed_entries ?r = ?ps"
        by (simp add: listed_entries_def shown(2))
      have sm: "listed_summary ?r = Some (summarise ?ps)"
        by (simp add: listed_summary_def)
      have "check_proposals_main showAll c = Some ?r \<and> ?r \<noteq> ListFailed
           \<and> i \<notin> prop_id ` set (listed_entries ?r)
           \<and> map prop_id (listed_entries ?r)
               = filter (\<lambda>j. fetch_step showAll c j [] \<noteq> []) [1..uint count]
           \<and> listed_summary ?r
               = (if listed_entries ?r = [] then None
                  else Some (summarise (listed_entries ?r)))"
        unfolding ent sm using run skip ids ne by simp
      then show ?thesis by (rule exI)
    qed
  qed
qed

theorem failed_fetch_skipped_witness:
  "\<exists>r. check_proposals_main False flaky_chain = Some r \<and> r \<noteq> ListFailed
     \<and> map prop_id (listed_entries r) = [1, 3]"
proof -
  have f: "fetch_step False flaky_chain 1 [] \<noteq> []" "fetch_step False flaky_chain 2 [] = []"
    "fetch_step False flaky_chain 3 [] \<noteq> []"
    by (simp_all add: fetch_step_def flaky_chain_def sample_chain_def Number_def toDouble_def)
  have "proposalCount flaky_chain = Some 3" "uint (3 :: 256 word) < 2 ^ 53"
    "\<forall>k. getBlockNumber flaky_chain k \<noteq> None"
    "proposals flaky_chain 2 = None \<or> state flaky_chain 2 = None"
    by (simp_all add: flaky_chain_def sample_chain_def)
  from failed_fetch_skipped [OF this, of False]
  have "\<exists>r. check_proposals_main False flaky_chain = Some r \<and> r \<noteq> ListFailed
           \<and> 2 \<notin> prop_id ` set (listed_entries r)
           \<and> map prop_id (listed_entries r)
               = filter (\<lambda>j. fetch_step False flaky_chain j [] \<noteq> []) [1..uint (3 :: 256 word)]
           \<and> listed_summary r
               = (if listed_entries r = [] then None
                  else Some (summarise (listed_entries r)))" .
  moreover have "filter (\<lambda>j. fetch_step False flaky_chain j [] \<noteq> []) [1..uint (3 :: 256 word)]
                   = [1, 3]"
    by (simp add: f upto_rec1)
  ultimately show ?thesis by auto
qed

end
